theory Spec2Isabelle
  imports Complex_Main "HOL-Library.Word"
begin

section \<open>Data model of the frame orchestration (RayTracer.cpp)\<close>

text \<open>
  The embedding follows \<^verbatim>\<open>src/RayTracer.cpp\<close> member function by member function.
  Unsigned 32-bit counters are \<open>32 word\<close>, so that subtraction and addition wrap as in
  C++. A time stamp (\<^verbatim>\<open>double\<close>) is the real number it denotes. Comparing two
  doubles, converting a 32-bit counter to a double and truncating a double to an
  integer are exact; subtracting and dividing doubles round their result, and the
  embedding does not fix how: the two operations are parameters of the model (\<open>fsub\<close>
  and \<open>fdiv\<close> below), and the general results hold for every rounding. The optical
  parameters (\<^verbatim>\<open>float\<close>) are only copied. The signed \<^verbatim>\<open>int SceneIndex\<close> is an
  \<open>int\<close> between \<open>INT_MIN\<close> and \<open>INT_MAX\<close>; its conversions to \<^verbatim>\<open>uint32_t\<close> and
  \<^verbatim>\<open>size_t\<close> are \<open>word_of_int\<close>, and incrementing it at \<open>INT_MAX\<close> is undefined
  behaviour.
\<close>

type_synonym u32 = "32 word"
type_synonym u64 = "64 word"

text \<open>\<^verbatim>\<open>UserSettings\<close>: the fields RayTracer.cpp reads or writes.\<close>

record UserSettings =
  Benchmark :: bool
  BenchmarkNextScenes :: bool
  BenchmarkMaxTime :: u32
  SceneIndex :: int
  IsRayTraced :: bool
  AccumulateRays :: bool
  NumberOfSamples :: u32
  NumberOfBounces :: u32
  MaxNumberOfSamples :: u32
  FieldOfView :: real
  Aperture :: real
  FocusDistance :: real
  GammaCorrection :: real
  ShowSettings :: bool
  ShowOverlay :: bool

text \<open>\<^verbatim>\<open>CameraInitialSate\<close>, filled in by a scene factory.\<close>

record CameraInitialSate =
  camModelView :: "real list"
  camFieldOfView :: real
  camAperture :: real
  camFocusDistance :: real
  camGammaCorrection :: real
  camHasSky :: bool

text \<open>\<^verbatim>\<open>Assets::Scene\<close>: the models and textures it was built from, by name.\<close>

record Scene =
  sceneModels :: "string list"
  sceneTextures :: "string list"

text \<open>
  Calls into collaborators (device, base application, window, console, user interface)
  are recorded, in program order, in the \<open>trace\<close> field of the state.
\<close>

datatype event =
    EvWaitIdle
  | EvUIDestroy
  | EvAppDeleteSwapChain
  | EvDeleteAccelerationStructures
  | EvLoadTexture string
  | EvNewScene
  | EvDeleteScene
  | EvCreateAccelerationStructures
  | EvAppCreateSwapChain
  | EvUICreate
  | EvAppDrawFrame
  | EvWindowClose
  | EvPrintStartScene u32 string
  | EvPrintFps u32 real
  | EvPrintNewline
  | EvRenderRayTraced
  | EvRenderRasterized
  | EvUIRender u32

text \<open>
  The data members of \<^verbatim>\<open>RayTracer\<close>, named without their trailing underscore;
  \<open>'c\<close> is the state of the ModelViewController.
\<close>

record 'c state =
  userSettings :: UserSettings
  previousSettings :: UserSettings
  cameraInitialSate :: CameraInitialSate
  scene :: "Scene option"
  sceneIndex :: u32
  modelViewController :: 'c
  isWireFrame :: bool
  totalNumberOfSamples :: u32
  numberOfSamples :: u32
  resetAccumulation :: bool
  time :: real
  sceneInitialTime :: real
  periodInitialTime :: real
  periodTotalFrames :: u32
  trace :: "event list"

text \<open>
  What RayTracer.cpp uses but does not define: the scene registry
  \<^verbatim>\<open>SceneList::AllScenes\<close> (name and factory; a factory fills the camera state it is
  given and returns models and textures), \<^verbatim>\<open>UserSettings::RequiresAccumulationReset\<close>,
  the ModelViewController operations (each returns whether the pose changed, and the
  new controller state), and the window configuration and framebuffer size. The last
  two fields are the subtraction and the division of doubles, each the exact result
  rounded to a double.
\<close>

record 'c env =
  AllScenes :: "(string \<times> (CameraInitialSate \<Rightarrow> (string list \<times> string list) \<times> CameraInitialSate)) list"
  RequiresAccumulationReset :: "UserSettings \<Rightarrow> UserSettings \<Rightarrow> bool"
  UpdateCamera :: "real \<Rightarrow> real \<Rightarrow> 'c \<Rightarrow> bool \<times> 'c"
  ControllerOnKey :: "int \<Rightarrow> int \<Rightarrow> int \<Rightarrow> int \<Rightarrow> 'c \<Rightarrow> bool \<times> 'c"
  ControllerOnCursorPosition :: "real \<Rightarrow> real \<Rightarrow> 'c \<Rightarrow> bool \<times> 'c"
  ControllerOnMouseButton :: "int \<Rightarrow> int \<Rightarrow> int \<Rightarrow> 'c \<Rightarrow> bool \<times> 'c"
  ControllerReset :: "real list \<Rightarrow> 'c \<Rightarrow> 'c"
  cfgFullscreen :: bool
  cfgWidth :: u32
  cfgHeight :: u32
  fbWidth :: u32
  fbHeight :: u32
  fsub :: "real \<Rightarrow> real \<Rightarrow> real"
  fdiv :: "real \<Rightarrow> real \<Rightarrow> real"

text \<open>
  A member function either returns or stops early. \<open>RuntimeError\<close> is the
  \<^verbatim>\<open>std::runtime_error\<close> thrown by \<^verbatim>\<open>CheckFramebufferSize\<close>; \<open>UndefinedBehaviour\<close>
  marks an unchecked subscript of the scene registry outside its bounds and the
  overflow of a signed integer, where C++ gives no meaning to the program. Both carry the state reached at that point.
\<close>

datatype error = RuntimeError | UndefinedBehaviour

datatype 'c outcome = Done "'c state" | Fault error "'c state"

fun state_of :: "'c outcome \<Rightarrow> 'c state" where
  "state_of (Done s) = s"
| "state_of (Fault e s) = s"

fun andThen :: "'c outcome \<Rightarrow> ('c state \<Rightarrow> 'c outcome) \<Rightarrow> 'c outcome" where
  "andThen (Done s) f = f s"
| "andThen (Fault e s) f = Fault e s"

definition emit :: "event \<Rightarrow> 'c state \<Rightarrow> 'c state" where
  "emit e s = s\<lparr>trace := trace s @ [e]\<rparr>"

section \<open>Library and GLFW constants\<close>

text \<open>\<^verbatim>\<open>glm::clamp(x, minVal, maxVal)\<close> is \<^verbatim>\<open>min(max(x, minVal), maxVal)\<close>.\<close>

definition glm_clamp :: "u32 \<Rightarrow> u32 \<Rightarrow> u32 \<Rightarrow> u32" where
  "glm_clamp x minVal maxVal = min (max x minVal) maxVal"

definition GLFW_PRESS :: int where "GLFW_PRESS = 1"
definition GLFW_KEY_ESCAPE :: int where "GLFW_KEY_ESCAPE = 256"
definition GLFW_KEY_F1 :: int where "GLFW_KEY_F1 = 290"
definition GLFW_KEY_F2 :: int where "GLFW_KEY_F2 = 291"
definition GLFW_KEY_R :: int where "GLFW_KEY_R = 82"
definition GLFW_KEY_P :: int where "GLFW_KEY_P = 80"
definition GLFW_KEY_W :: int where "GLFW_KEY_W = 87"

text \<open>
  \<^verbatim>\<open>static_cast<uint64_t>\<close> of a \<^verbatim>\<open>double\<close> truncates towards zero. Outside
  \<open>[0, 2^64)\<close> the conversion is undefined in C++; the model wraps there.
\<close>

definition to_uint64 :: "real \<Rightarrow> u64" where
  "to_uint64 x = word_of_int (if 0 \<le> x then \<lfloor>x\<rfloor> else \<lceil>x\<rceil>)"

section \<open>Swap chain and scene loading\<close>

definition CheckFramebufferSize :: "'c env \<Rightarrow> 'c state \<Rightarrow> 'c outcome" where
  "CheckFramebufferSize env s =
     (if Benchmark (userSettings s) \<and> cfgFullscreen env \<and>
         (fbWidth env \<noteq> cfgWidth env \<or> fbHeight env \<noteq> cfgHeight env)
      then Fault RuntimeError s
      else Done s)"

definition CreateSwapChain :: "'c env \<Rightarrow> 'c state \<Rightarrow> 'c outcome" where
  "CreateSwapChain env s =
     (let s1 = emit EvAppCreateSwapChain s;
          s2 = emit EvUICreate s1;
          s3 = s2\<lparr>resetAccumulation := True\<rparr>
      in CheckFramebufferSize env s3)"

definition DeleteSwapChain :: "'c state \<Rightarrow> 'c state" where
  "DeleteSwapChain s = emit EvAppDeleteSwapChain (emit EvUIDestroy s)"

definition white_png :: string where
  "white_png = ''../assets/textures/white.png''"

definition LoadScene :: "'c env \<Rightarrow> u32 \<Rightarrow> 'c state \<Rightarrow> 'c outcome" where
  "LoadScene env idx s =
     (if unat idx < length (AllScenes env) then
        (case snd (AllScenes env ! unat idx) (cameraInitialSate s) of
           ((models, textures), cam) \<Rightarrow>
             let s1 = s\<lparr>cameraInitialSate := cam\<rparr>;
                 s2 = (if textures = [] then emit (EvLoadTexture white_png) s1 else s1);
                 textures' = (if textures = [] then textures @ [white_png] else textures);
                 s3 = emit EvNewScene s2;
                 s4 = (if scene s3 \<noteq> None then emit EvDeleteScene s3 else s3);
                 s5 = s4\<lparr>scene := Some \<lparr>sceneModels = models, sceneTextures = textures'\<rparr>\<rparr>;
                 s6 = s5\<lparr>sceneIndex := idx\<rparr>;
                 s7 = s6\<lparr>userSettings := (userSettings s6)
                        \<lparr>FieldOfView := camFieldOfView cam,
                         Aperture := camAperture cam,
                         FocusDistance := camFocusDistance cam,
                         GammaCorrection := camGammaCorrection cam\<rparr>\<rparr>;
                 s8 = s7\<lparr>modelViewController :=
                          ControllerReset env (camModelView cam) (modelViewController s7)\<rparr>;
                 s9 = s8\<lparr>periodTotalFrames := 0\<rparr>
             in Done (s9\<lparr>resetAccumulation := True\<rparr>))
      else Fault UndefinedBehaviour s)"

section \<open>DrawFrame\<close>

definition requestedScene :: "'c state \<Rightarrow> u32" where
  "requestedScene s = word_of_int (SceneIndex (userSettings s))"

text \<open>Lines 99-106: the accumulation reset check.\<close>

definition resetRequired :: "'c env \<Rightarrow> 'c state \<Rightarrow> bool" where
  "resetRequired env s \<longleftrightarrow>
     resetAccumulation s \<or>
     RequiresAccumulationReset env (userSettings s) (previousSettings s) \<or>
     \<not> AccumulateRays (userSettings s)"

definition CheckAccumulationReset :: "'c env \<Rightarrow> 'c state \<Rightarrow> 'c state" where
  "CheckAccumulationReset env s =
     (if resetRequired env s
      then s\<lparr>totalNumberOfSamples := 0, resetAccumulation := False\<rparr>
      else s)"

text \<open>Lines 108-112: the settings snapshot and the sample count.\<close>

definition TrackSampleCount :: "'c state \<Rightarrow> 'c state" where
  "TrackSampleCount s =
     (let s1 = s\<lparr>previousSettings := userSettings s\<rparr>;
          s2 = s1\<lparr>numberOfSamples :=
                 glm_clamp (MaxNumberOfSamples (userSettings s1) - totalNumberOfSamples s1)
                   0 (NumberOfSamples (userSettings s1))\<rparr>
      in s2\<lparr>totalNumberOfSamples := totalNumberOfSamples s2 + numberOfSamples s2\<rparr>)"

definition DrawFrame :: "'c env \<Rightarrow> 'c state \<Rightarrow> 'c outcome" where
  "DrawFrame env s =
     (if sceneIndex s \<noteq> requestedScene s then
        andThen
          (LoadScene env (requestedScene s)
             (emit EvDeleteAccelerationStructures (DeleteSwapChain (emit EvWaitIdle s))))
          (\<lambda>s'. CreateSwapChain env (emit EvCreateAccelerationStructures s'))
      else
        Done (emit EvAppDrawFrame (TrackSampleCount (CheckAccumulationReset env s))))"

section \<open>Render and the benchmark bookkeeping\<close>

text \<open>Lines 241-248: the scene timers are initialised on the first frame of a scene.\<close>

definition InitialiseBenchmarkTimers :: "'c env \<Rightarrow> 'c state \<Rightarrow> 'c outcome" where
  "InitialiseBenchmarkTimers env s =
     (if periodTotalFrames s = 0 then
        (if unat (sceneIndex s) < length (AllScenes env) then
           Done ((emit (EvPrintStartScene (sceneIndex s)
                          (fst (AllScenes env ! unat (sceneIndex s))))
                    (emit EvPrintNewline s))
                   \<lparr>sceneInitialTime := time s, periodInitialTime := time s\<rparr>)
         else Fault UndefinedBehaviour s)
      else Done s)"

text \<open>Lines 250-264: the frame rate is printed when a period boundary is crossed.\<close>

definition period :: real where
  "period = 5"

definition periodCrossed :: "'c env \<Rightarrow> real \<Rightarrow> 'c state \<Rightarrow> bool" where
  "periodCrossed env prevTime s \<longleftrightarrow>
     (let prevTotalTime = fsub env prevTime (periodInitialTime s);
          totalTime = fsub env (time s) (periodInitialTime s)
      in periodTotalFrames s \<noteq> 0 \<and>
         to_uint64 (fdiv env prevTotalTime period) \<noteq> to_uint64 (fdiv env totalTime period))"

definition ReportFrameRate :: "'c env \<Rightarrow> real \<Rightarrow> 'c state \<Rightarrow> 'c state" where
  "ReportFrameRate env prevTime s =
     (let s1 = (if periodCrossed env prevTime s
                then (emit (EvPrintFps (periodTotalFrames s)
                              (fsub env (time s) (periodInitialTime s))) s)
                       \<lparr>periodInitialTime := time s, periodTotalFrames := 0\<rparr>
                else s)
      in s1\<lparr>periodTotalFrames := periodTotalFrames s1 + 1\<rparr>)"

text \<open>
  Lines 266-281: leaving the scene. \<open>now\<close> is the value of \<^verbatim>\<open>Window().Time()\<close> read
  on line 268. Line 279 increments an \<^verbatim>\<open>int\<close>, which overflows at \<open>INT_MAX\<close>.
\<close>

definition INT_MAX :: int where
  "INT_MAX = 2147483647"

definition limitReached :: "'c env \<Rightarrow> real \<Rightarrow> 'c state \<Rightarrow> bool" where
  "limitReached env now s \<longleftrightarrow>
     (periodTotalFrames s \<noteq> 0 \<and>
      fsub env now (sceneInitialTime s) > real (unat (BenchmarkMaxTime (userSettings s)))) \<or>
     numberOfSamples s = 0"

definition closesWindow :: "'c env \<Rightarrow> 'c state \<Rightarrow> bool" where
  "closesWindow env s \<longleftrightarrow>
     \<not> BenchmarkNextScenes (userSettings s) \<or>
     (word_of_int (SceneIndex (userSettings s)) :: u64) = word_of_nat (length (AllScenes env)) - 1"

definition CheckSceneLimits :: "'c env \<Rightarrow> real \<Rightarrow> 'c state \<Rightarrow> 'c outcome" where
  "CheckSceneLimits env now s =
     (if limitReached env now s then
        (let s1 = (if closesWindow env s then emit EvWindowClose s else s);
             s2 = emit EvPrintNewline s1
         in if SceneIndex (userSettings s2) < INT_MAX
            then Done (s2\<lparr>userSettings :=
                          (userSettings s2)\<lparr>SceneIndex := SceneIndex (userSettings s2) + 1\<rparr>\<rparr>)
            else Fault UndefinedBehaviour s2)
      else Done s)"

definition CheckAndUpdateBenchmarkState :: "'c env \<Rightarrow> real \<Rightarrow> real \<Rightarrow> 'c state \<Rightarrow> 'c outcome" where
  "CheckAndUpdateBenchmarkState env now prevTime s =
     (if \<not> Benchmark (userSettings s) then Done s
      else andThen (InitialiseBenchmarkTimers env s)
             (\<lambda>s1. CheckSceneLimits env now (ReportFrameRate env prevTime s1)))"


section \<open>Input handlers\<close>

text \<open>
  \<open>wantsKeyboard\<close> and \<open>wantsMouse\<close> are the answers of
  \<^verbatim>\<open>userInterface->WantsToCaptureKeyboard()\<close> and \<^verbatim>\<open>WantsToCaptureMouse()\<close>.
\<close>

definition ToggleSettings :: "int \<Rightarrow> 'c state \<Rightarrow> 'c state" where
  "ToggleSettings key s =
     (if key = GLFW_KEY_F1 then
        s\<lparr>userSettings := (userSettings s)\<lparr>ShowSettings := \<not> ShowSettings (userSettings s)\<rparr>\<rparr>
      else if key = GLFW_KEY_F2 then
        s\<lparr>userSettings := (userSettings s)\<lparr>ShowOverlay := \<not> ShowOverlay (userSettings s)\<rparr>\<rparr>
      else if key = GLFW_KEY_R then
        s\<lparr>userSettings := (userSettings s)\<lparr>IsRayTraced := \<not> IsRayTraced (userSettings s)\<rparr>\<rparr>
      else if key = GLFW_KEY_P then
        s\<lparr>isWireFrame := \<not> isWireFrame s\<rparr>
      else s)"

definition OnKey :: "'c env \<Rightarrow> bool \<Rightarrow> int \<Rightarrow> int \<Rightarrow> int \<Rightarrow> int \<Rightarrow> 'c state \<Rightarrow> 'c state" where
  "OnKey env wantsKeyboard key scancode action mods s =
     (if wantsKeyboard then s
      else
        let s1 = (if action = GLFW_PRESS then
                    (let s' = (if key = GLFW_KEY_ESCAPE then emit EvWindowClose s else s)
                     in if \<not> Benchmark (userSettings s') then ToggleSettings key s' else s')
                  else s);
            r = ControllerOnKey env key scancode action mods (modelViewController s1)
        in s1\<lparr>modelViewController := snd r,
              resetAccumulation := (resetAccumulation s1 \<or> fst r)\<rparr>)"

definition OnCursorPosition :: "'c env \<Rightarrow> bool \<Rightarrow> bool \<Rightarrow> real \<Rightarrow> real \<Rightarrow> 'c state \<Rightarrow> 'c state" where
  "OnCursorPosition env wantsKeyboard wantsMouse xpos ypos s =
     (if Benchmark (userSettings s) \<or> wantsKeyboard \<or> wantsMouse then s
      else
        let r = ControllerOnCursorPosition env xpos ypos (modelViewController s)
        in s\<lparr>modelViewController := snd r,
             resetAccumulation := (resetAccumulation s \<or> fst r)\<rparr>)"

definition OnMouseButton :: "'c env \<Rightarrow> bool \<Rightarrow> int \<Rightarrow> int \<Rightarrow> int \<Rightarrow> 'c state \<Rightarrow> 'c state" where
  "OnMouseButton env wantsMouse button action mods s =
     (if Benchmark (userSettings s) \<or> wantsMouse then s
      else
        let r = ControllerOnMouseButton env button action mods (modelViewController s)
        in s\<lparr>modelViewController := snd r,
             resetAccumulation := (resetAccumulation s \<or> fst r)\<rparr>)"

section \<open>A sample configuration\<close>

text \<open>
  Modelled from the spec: \<^verbatim>\<open>UserSettings::RequiresAccumulationReset\<close> is declared in
  UserSettings.hpp, which is not among the sources. This instance compares the fields
  the specification lists as affecting the rendered image (aperture, focus distance,
  field of view, bounce count, gamma, ray-traced toggle, scene index). It is used only
  in the sample configuration below; the general results hold for every instance.
\<close>

definition imageSettingsDiffer :: "UserSettings \<Rightarrow> UserSettings \<Rightarrow> bool" where
  "imageSettingsDiffer cur prev \<longleftrightarrow>
     Aperture cur \<noteq> Aperture prev \<or>
     FocusDistance cur \<noteq> FocusDistance prev \<or>
     FieldOfView cur \<noteq> FieldOfView prev \<or>
     NumberOfBounces cur \<noteq> NumberOfBounces prev \<or>
     GammaCorrection cur \<noteq> GammaCorrection prev \<or>
     IsRayTraced cur \<noteq> IsRayTraced prev \<or>
     SceneIndex cur \<noteq> SceneIndex prev"

text \<open>
  A two-scene registry, a one-dimensional camera controller that moves on the W key,
  and a state as left by loading scene 0. They serve to run the definitions on
  concrete inputs. The sample arithmetic does not round; the sample runs below use
  time stamps that are multiples of one half, whose differences are exact in double
  precision and whose quotients by the period truncate to the same integer with or
  without rounding.
\<close>

definition sampleCamera :: CameraInitialSate where
  "sampleCamera = \<lparr>camModelView = [], camFieldOfView = 40, camAperture = 0,
     camFocusDistance = 10, camGammaCorrection = 1, camHasSky = False\<rparr>"

definition sampleFactory :: "string \<Rightarrow> string list \<Rightarrow> CameraInitialSate \<Rightarrow> (string list \<times> string list) \<times> CameraInitialSate" where
  "sampleFactory model textures cam = (([model], textures), sampleCamera)"

definition sampleEnv :: "int env" where
  "sampleEnv = \<lparr>
     AllScenes = [(''Cornell Box'', sampleFactory ''box'' []),
                  (''Planets'', sampleFactory ''sphere'' [''land.jpg''])],
     RequiresAccumulationReset = imageSettingsDiffer,
     UpdateCamera = (\<lambda>speed timeDelta c. (False, c)),
     ControllerOnKey = (\<lambda>key scancode action mods c.
        if key = GLFW_KEY_W then (True, c + 1) else (False, c)),
     ControllerOnCursorPosition = (\<lambda>xpos ypos c. (False, c)),
     ControllerOnMouseButton = (\<lambda>button action mods c. (False, c)),
     ControllerReset = (\<lambda>modelView c. 0),
     cfgFullscreen = False, cfgWidth = 1280, cfgHeight = 720,
     fbWidth = 1280, fbHeight = 720,
     fsub = (\<lambda>x y. x - y), fdiv = (\<lambda>x y. x / y)\<rparr>"

definition sampleSettings :: UserSettings where
  "sampleSettings = \<lparr>Benchmark = False, BenchmarkNextScenes = False, BenchmarkMaxTime = 5,
     SceneIndex = 0, IsRayTraced = True, AccumulateRays = True, NumberOfSamples = 10,
     NumberOfBounces = 16, MaxNumberOfSamples = 100, FieldOfView = 40, Aperture = 0,
     FocusDistance = 10, GammaCorrection = 1, ShowSettings = True, ShowOverlay = True\<rparr>"

definition sampleState :: "int state" where
  "sampleState = \<lparr>userSettings = sampleSettings, previousSettings = sampleSettings,
     cameraInitialSate = sampleCamera,
     scene = Some \<lparr>sceneModels = [''box''], sceneTextures = [white_png]\<rparr>,
     sceneIndex = 0, modelViewController = 0, isWireFrame = False,
     totalNumberOfSamples = 0, numberOfSamples = 0, resetAccumulation = False,
     time = 0, sceneInitialTime = 0, periodInitialTime = 0, periodTotalFrames = 0,
     trace = []\<rparr>"


section \<open>The accumulation scenario\<close>

text \<open>
  A run of frames is given by the states in which successive calls of
  \<open>DrawFrame\<close> start. Between two frames anything may change (rendering, input,
  settings edits) except that the total sample count is the one the previous
  \<open>DrawFrame\<close> left. A scenario frame is a frame without scene change and without
  reset, with a budget of 100 samples taken 10 at a time.
\<close>

fun steadyFrames :: "'c env \<Rightarrow> 'c state list \<Rightarrow> bool" where
  "steadyFrames env [] = True"
| "steadyFrames env [s] = True"
| "steadyFrames env (s # s' # ss) =
     (totalNumberOfSamples s' = totalNumberOfSamples (state_of (DrawFrame env s)) \<and>
      steadyFrames env (s' # ss))"

definition scenarioFrame :: "'c env \<Rightarrow> 'c state \<Rightarrow> bool" where
  "scenarioFrame env s \<longleftrightarrow>
     sceneIndex s = requestedScene s \<and> \<not> resetRequired env s \<and>
     MaxNumberOfSamples (userSettings s) = 100 \<and> NumberOfSamples (userSettings s) = 10"

definition scenarioStates :: "int state list" where
  "scenarioStates = map (\<lambda>k. sampleState\<lparr>totalNumberOfSamples := 10 * of_nat (min k 10)\<rparr>) [0..<12]"


section \<open>Notions used to state the results\<close>

text \<open>The collaborator calls a step added to the trace.\<close>

definition newEvents :: "'c state \<Rightarrow> 'c state \<Rightarrow> event list" where
  "newEvents s s' = drop (length (trace s)) (trace s')"

text \<open>Lines 90-92 of \<open>DrawFrame\<close>: the device-idle wait and the two teardowns.\<close>

definition teardown :: "'c state \<Rightarrow> 'c state" where
  "teardown s = emit EvDeleteAccelerationStructures (DeleteSwapChain (emit EvWaitIdle s))"

text \<open>
  What the factory of scene \<open>idx\<close> returns, and the collaborator calls that
  \<open>LoadScene\<close> makes for it: the placeholder texture is loaded when the scene has no
  texture, the new scene is constructed, and the scene owned so far, if any, is
  destroyed.
\<close>

definition sceneAssets :: "'c env \<Rightarrow> u32 \<Rightarrow> 'c state \<Rightarrow> (string list \<times> string list) \<times> CameraInitialSate" where
  "sceneAssets env idx s = snd (AllScenes env ! unat idx) (cameraInitialSate s)"

definition loadEvents :: "'c env \<Rightarrow> u32 \<Rightarrow> 'c state \<Rightarrow> event list" where
  "loadEvents env idx s =
     (if snd (fst (sceneAssets env idx s)) = [] then [EvLoadTexture white_png] else [])
     @ [EvNewScene]
     @ (if scene s \<noteq> None then [EvDeleteScene] else [])"

text \<open>
  The benchmark's scene-advance condition in the words of the specification: the scene
  time, the double-precision difference of the window time and the scene start,
  exceeds the configured maximum, or no sample is left to take. The scene start is the time of the first frame of the scene (line 246),
  which is the current frame when no frame has been counted yet.
\<close>

definition sceneStart :: "'c state \<Rightarrow> real" where
  "sceneStart s = (if periodTotalFrames s = 0 then time s else sceneInitialTime s)"

definition sceneLimitReached :: "'c env \<Rightarrow> real \<Rightarrow> 'c state \<Rightarrow> bool" where
  "sceneLimitReached env now s \<longleftrightarrow>
     fsub env now (sceneStart s) > real (unat (BenchmarkMaxTime (userSettings s))) \<or>
     numberOfSamples s = 0"

definition lastScene :: "'c env \<Rightarrow> 'c state \<Rightarrow> bool" where
  "lastScene env s \<longleftrightarrow> SceneIndex (userSettings s) = int (length (AllScenes env)) - 1"

text \<open>
  A well-formed benchmark frame: benchmark mode is on, the active scene is a scene of
  the registry, the requested index is a non-negative \<^verbatim>\<open>int\<close> below \<open>INT_MAX\<close>, so
  that it can be incremented, the registry size is a \<^verbatim>\<open>size_t\<close>, and the 32-bit
  frame counter is not about to wrap around.
\<close>

definition benchmarkFrameOk :: "'c env \<Rightarrow> 'c state \<Rightarrow> bool" where
  "benchmarkFrameOk env s \<longleftrightarrow>
     Benchmark (userSettings s) \<and>
     unat (sceneIndex s) < length (AllScenes env) \<and>
     length (AllScenes env) < 2 ^ 64 \<and>
     0 \<le> SceneIndex (userSettings s) \<and> SceneIndex (userSettings s) < INT_MAX \<and>
     unat (periodTotalFrames s) < 2 ^ 32 - 1"

text \<open>
  Frame-rate reports in a trace, and the boundary test of line 256 seen from the state
  in which \<open>Render\<close> starts: \<open>time s\<close> is the previous frame's time and \<open>now\<close> the
  current one.
\<close>

fun isFpsReport :: "event \<Rightarrow> bool" where
  "isFpsReport (EvPrintFps n t) = True"
| "isFpsReport e = False"

definition fpsReports :: "event list \<Rightarrow> nat" where
  "fpsReports evs = length (filter isFpsReport evs)"




section \<open>Sample states\<close>

text \<open>The maximum was lowered from 100 to 10 after 50 samples had been accumulated.\<close>

definition loweredMaxState :: "int state" where
  "loweredMaxState = sampleState
     \<lparr>userSettings := sampleSettings\<lparr>MaxNumberOfSamples := 10\<rparr>,
      totalNumberOfSamples := 50, numberOfSamples := 10\<rparr>"

text \<open>Scene 1 is requested while scene 0 is active, and a reset is pending.\<close>

definition pendingResetState :: "int state" where
  "pendingResetState = sampleState
     \<lparr>userSettings := sampleSettings\<lparr>SceneIndex := 1\<rparr>,
      totalNumberOfSamples := 50, numberOfSamples := 10, resetAccumulation := True\<rparr>"

text \<open>Index 2 is requested, which is outside the registry of two scenes.\<close>

definition outsideRequestState :: "int state" where
  "outsideRequestState = sampleState\<lparr>userSettings := sampleSettings\<lparr>SceneIndex := 2\<rparr>\<rparr>"

text \<open>A reset is pending and the scene is unchanged.\<close>

definition pendingFlagState :: "int state" where
  "pendingFlagState = sampleState
     \<lparr>totalNumberOfSamples := 50, numberOfSamples := 10, resetAccumulation := True\<rparr>"

text \<open>Benchmark mode, in the middle of a period.\<close>

definition benchmarkState :: "int state" where
  "benchmarkState = sampleState
     \<lparr>userSettings := sampleSettings\<lparr>Benchmark := True\<rparr>,
      previousSettings := sampleSettings\<lparr>Benchmark := True\<rparr>,
      totalNumberOfSamples := 10, numberOfSamples := 10, periodTotalFrames := 1\<rparr>"

text \<open>
  The benchmark scenario: a registry of one scene, a maximum scene time of 5, no
  advance through the scenes, and a frame at time 6 of a scene started at time 0.
\<close>

definition singleSceneEnv :: "int env" where
  "singleSceneEnv = sampleEnv\<lparr>AllScenes := [(''Cornell Box'', sampleFactory ''box'' [])]\<rparr>"

definition benchmarkLateState :: "int state" where
  "benchmarkLateState = benchmarkState\<lparr>time := 6, periodInitialTime := 5, periodTotalFrames := 7\<rparr>"




section \<open>Basic facts\<close>

lemma DrawFrame_same_scene:
  "sceneIndex s = requestedScene s \<Longrightarrow>
   DrawFrame env s = Done (emit EvAppDrawFrame (TrackSampleCount (CheckAccumulationReset env s)))"
  by (simp add: DrawFrame_def)

lemma numberOfSamples_TrackSampleCount:
  "numberOfSamples (TrackSampleCount s) =
     glm_clamp (MaxNumberOfSamples (userSettings s) - totalNumberOfSamples s) 0
       (NumberOfSamples (userSettings s))"
  by (simp add: TrackSampleCount_def Let_def)

lemma totalNumberOfSamples_TrackSampleCount:
  "totalNumberOfSamples (TrackSampleCount s) =
     totalNumberOfSamples s + numberOfSamples (TrackSampleCount s)"
  by (simp add: TrackSampleCount_def Let_def)

lemma userSettings_CheckAccumulationReset [simp]:
  "userSettings (CheckAccumulationReset env s) = userSettings s"
  by (simp add: CheckAccumulationReset_def)

lemma emit_fields [simp]:
  "userSettings (emit e s) = userSettings s"
  "previousSettings (emit e s) = previousSettings s"
  "totalNumberOfSamples (emit e s) = totalNumberOfSamples s"
  "numberOfSamples (emit e s) = numberOfSamples s"
  "resetAccumulation (emit e s) = resetAccumulation s"
  "sceneIndex (emit e s) = sceneIndex s"
  "trace (emit e s) = trace s @ [e]"
  by (simp_all add: emit_def)

lemma steadyFrames_nth:
  "steadyFrames env ss \<Longrightarrow> Suc k < length ss \<Longrightarrow>
   totalNumberOfSamples (ss ! Suc k) = totalNumberOfSamples (state_of (DrawFrame env (ss ! k)))"
proof (induction env ss arbitrary: k rule: steadyFrames.induct)
  case (3 env s s' ss)
  then show ?case by (cases k) auto
qed simp_all

lemma scenario_step:
  assumes "scenarioFrame env t" and "totalNumberOfSamples t = 10 * of_nat k" and "k \<le> 10"
  shows "totalNumberOfSamples (state_of (DrawFrame env t)) = (if k < 10 then 10 * (of_nat k + 1) else 100)
       \<and> numberOfSamples (state_of (DrawFrame env t)) = (if k < 10 then 10 else 0)"
proof -
  from assms(3) have "k = 0 \<or> k = 1 \<or> k = 2 \<or> k = 3 \<or> k = 4 \<or> k = 5 \<or> k = 6 \<or> k = 7
      \<or> k = 8 \<or> k = 9 \<or> k = 10" by arith
  with assms(1,2) show ?thesis
    by (auto simp: scenarioFrame_def DrawFrame_same_scene CheckAccumulationReset_def
        totalNumberOfSamples_TrackSampleCount numberOfSamples_TrackSampleCount glm_clamp_def)
qed


section \<open>Sample budget (DrawFrame, lines 110-112)\<close>

lemma total_scenario:
  assumes "steadyFrames env ss" and "list_all (scenarioFrame env) ss"
    and "ss \<noteq> []" and "totalNumberOfSamples (hd ss) = 0" and "k < length ss"
  shows "totalNumberOfSamples (ss ! k) = 10 * of_nat (min k 10)"
  using assms(5)
proof (induction k)
  case 0
  with assms(3,4) show ?case by (simp add: hd_conv_nth)
next
  case (Suc k)
  then have k: "k < length ss" and ih: "totalNumberOfSamples (ss ! k) = 10 * of_nat (min k 10)"
    by simp_all
  from k assms(2) have sf: "scenarioFrame env (ss ! k)" by (simp add: list_all_length)
  have "totalNumberOfSamples (ss ! Suc k) = totalNumberOfSamples (state_of (DrawFrame env (ss ! k)))"
    using steadyFrames_nth [OF assms(1) Suc.prems] .
  also have "\<dots> = (if min k 10 < 10 then 10 * (of_nat (min k 10) + 1) else 100)"
    using scenario_step [OF sf ih] by simp
  also have "\<dots> = 10 * of_nat (min (Suc k) 10)"
    by (auto simp: min_def)
  finally show ?case .
qed

text \<open>
  C1. On a frame without scene change, \<open>DrawFrame\<close> returns with
  \<open>numberOfSamples = clamp (MaxNumberOfSamples - totalNumberOfSamples, 0, NumberOfSamples)\<close>,
  the total being the one left by the reset check, and then adds this number to the
  total. In a run of scenario frames that starts with a total of 0, frame \<open>k\<close>
  (counted from 0) leaves the total at \<open>10 * (k + 1)\<close> while \<open>k < 10\<close>, so at 100 after
  ten frames, and every later frame takes 0 samples and leaves the total at 100.
\<close>

theorem DrawFrame_sample_budget:
  "(sceneIndex s = requestedScene s \<longrightarrow>
      (\<exists>s'. DrawFrame env s = Done s' \<and>
         numberOfSamples s' =
           glm_clamp (MaxNumberOfSamples (userSettings s)
                        - totalNumberOfSamples (CheckAccumulationReset env s))
             0 (NumberOfSamples (userSettings s)) \<and>
         totalNumberOfSamples s' =
           totalNumberOfSamples (CheckAccumulationReset env s) + numberOfSamples s'))
   \<and> (steadyFrames env ss \<and> list_all (scenarioFrame env) ss \<and>
        ss \<noteq> [] \<and> totalNumberOfSamples (hd ss) = 0 \<longrightarrow>
        (\<forall>k < length ss.
           totalNumberOfSamples (state_of (DrawFrame env (ss ! k)))
             = (if k < 10 then 10 * (of_nat k + 1) else 100) \<and>
           numberOfSamples (state_of (DrawFrame env (ss ! k)))
             = (if k < 10 then 10 else 0)))"
proof (intro conjI impI allI)
  assume "sceneIndex s = requestedScene s"
  then show "\<exists>s'. DrawFrame env s = Done s' \<and>
         numberOfSamples s' =
           glm_clamp (MaxNumberOfSamples (userSettings s)
                        - totalNumberOfSamples (CheckAccumulationReset env s))
             0 (NumberOfSamples (userSettings s)) \<and>
         totalNumberOfSamples s' =
           totalNumberOfSamples (CheckAccumulationReset env s) + numberOfSamples s'"
    by (simp add: DrawFrame_same_scene numberOfSamples_TrackSampleCount
        totalNumberOfSamples_TrackSampleCount)
next
  fix k
  assume a: "steadyFrames env ss \<and> list_all (scenarioFrame env) ss \<and>
        ss \<noteq> [] \<and> totalNumberOfSamples (hd ss) = 0" and k: "k < length ss"
  then have tot: "totalNumberOfSamples (ss ! k) = 10 * of_nat (min k 10)"
    using total_scenario [of env ss k] by simp
  from a k have sf: "scenarioFrame env (ss ! k)" by (simp add: list_all_length)
  from scenario_step [OF sf tot]
  have r: "totalNumberOfSamples (state_of (DrawFrame env (ss ! k))) =
             (if min k 10 < 10 then 10 * (of_nat (min k 10) + 1) else 100) \<and>
           numberOfSamples (state_of (DrawFrame env (ss ! k))) = (if min k 10 < 10 then 10 else 0)"
    by simp
  from r show "totalNumberOfSamples (state_of (DrawFrame env (ss ! k)))
             = (if k < 10 then 10 * (of_nat k + 1) else 100)"
    by (auto simp: min_def)
  from r show "numberOfSamples (state_of (DrawFrame env (ss ! k)))
             = (if k < 10 then 10 else 0)"
    by (auto simp: min_def)
qed

lemma scenarioStates_steady: "steadyFrames sampleEnv scenarioStates"
  by code_simp

lemma scenarioStates_frames: "list_all (scenarioFrame sampleEnv) scenarioStates"
  by code_simp

lemma sampleState_same_scene: "sceneIndex sampleState = requestedScene sampleState"
  by code_simp

lemma scenarioStates_start: "scenarioStates \<noteq> [] \<and> totalNumberOfSamples (hd scenarioStates) = 0"
  by code_simp

theorem DrawFrame_sample_budget_witness:
  "sceneIndex sampleState = requestedScene sampleState \<and>
   steadyFrames sampleEnv scenarioStates \<and>
   list_all (scenarioFrame sampleEnv) scenarioStates \<and>
   scenarioStates \<noteq> [] \<and> totalNumberOfSamples (hd scenarioStates) = 0 \<and>
   (\<exists>s'. DrawFrame sampleEnv sampleState = Done s' \<and> numberOfSamples s' = 10 \<and>
         totalNumberOfSamples s' = 10) \<and>
   totalNumberOfSamples (state_of (DrawFrame sampleEnv (scenarioStates ! 9))) = 100 \<and>
   numberOfSamples (state_of (DrawFrame sampleEnv (scenarioStates ! 10))) = 0 \<and>
   numberOfSamples (state_of (DrawFrame sampleEnv (scenarioStates ! 11))) = 0"
proof -
  have len: "length scenarioStates = 12" by (simp add: scenarioStates_def)
  have car: "totalNumberOfSamples (CheckAccumulationReset sampleEnv sampleState) = 0"
    "MaxNumberOfSamples (userSettings sampleState) = 100"
    "NumberOfSamples (userSettings sampleState) = 10"
    by (simp_all add: CheckAccumulationReset_def sampleState_def sampleSettings_def)
  note T = DrawFrame_sample_budget [of sampleState sampleEnv scenarioStates]
  from T sampleState_same_scene have a: "\<exists>s'. DrawFrame sampleEnv sampleState = Done s' \<and> numberOfSamples s' = 10 \<and>
         totalNumberOfSamples s' = 10"
    by (auto simp: car glm_clamp_def)
  from T scenarioStates_steady scenarioStates_frames scenarioStates_start have b: "\<forall>k < length scenarioStates.
           totalNumberOfSamples (state_of (DrawFrame sampleEnv (scenarioStates ! k)))
             = (if k < 10 then 10 * (of_nat k + 1) else 100) \<and>
           numberOfSamples (state_of (DrawFrame sampleEnv (scenarioStates ! k)))
             = (if k < 10 then 10 else 0)"
    by blast
  from b [rule_format, of 9] b [rule_format, of 10] b [rule_format, of 11] len
  have c: "totalNumberOfSamples (state_of (DrawFrame sampleEnv (scenarioStates ! 9))) = 100 \<and>
   numberOfSamples (state_of (DrawFrame sampleEnv (scenarioStates ! 10))) = 0 \<and>
   numberOfSamples (state_of (DrawFrame sampleEnv (scenarioStates ! 11))) = 0"
    by simp
  from scenarioStates_steady scenarioStates_frames sampleState_same_scene scenarioStates_start a c show ?thesis by blast
qed

section \<open>Further basic facts\<close>

lemma emit_more_fields [simp]:
  "scene (emit e s) = scene s"
  "cameraInitialSate (emit e s) = cameraInitialSate s"
  "modelViewController (emit e s) = modelViewController s"
  "isWireFrame (emit e s) = isWireFrame s"
  "time (emit e s) = time s"
  "sceneInitialTime (emit e s) = sceneInitialTime s"
  "periodInitialTime (emit e s) = periodInitialTime s"
  "periodTotalFrames (emit e s) = periodTotalFrames s"
  by (simp_all add: emit_def)

lemma newEvents_self [simp]: "newEvents s s = []"
  by (simp add: newEvents_def)

lemma newEvents_append: "trace s' = trace s @ evs \<Longrightarrow> newEvents s s' = evs"
  by (simp add: newEvents_def)

lemma fpsReports_simps [simp]:
  "fpsReports [] = 0"
  "fpsReports (e # evs) = (if isFpsReport e then 1 else 0) + fpsReports evs"
  "fpsReports (evs @ evs') = fpsReports evs + fpsReports evs'"
  by (simp_all add: fpsReports_def)

lemma teardown_fields [simp]:
  "scene (DeleteSwapChain s) = scene s"
  "cameraInitialSate (DeleteSwapChain s) = cameraInitialSate s"
  "previousSettings (DeleteSwapChain s) = previousSettings s"
  "totalNumberOfSamples (DeleteSwapChain s) = totalNumberOfSamples s"
  "numberOfSamples (DeleteSwapChain s) = numberOfSamples s"
  "trace (DeleteSwapChain s) = trace s @ [EvUIDestroy, EvAppDeleteSwapChain]"
  by (simp_all add: DeleteSwapChain_def)

lemma teardown_fields2 [simp]:
  "scene (teardown s) = scene s"
  "cameraInitialSate (teardown s) = cameraInitialSate s"
  "previousSettings (teardown s) = previousSettings s"
  "totalNumberOfSamples (teardown s) = totalNumberOfSamples s"
  "numberOfSamples (teardown s) = numberOfSamples s"
  "trace (teardown s) = trace s @ [EvWaitIdle, EvUIDestroy, EvAppDeleteSwapChain, EvDeleteAccelerationStructures]"
  by (simp_all add: teardown_def)

lemma loadEvents_cong:
  "scene s' = scene s \<Longrightarrow> cameraInitialSate s' = cameraInitialSate s \<Longrightarrow>
   loadEvents env idx s' = loadEvents env idx s"
  by (simp add: loadEvents_def sceneAssets_def)

section \<open>The sample count and the maximum (DrawFrame, lines 110-112)\<close>

text \<open>
  As long as the total does not exceed the maximum when the budget is computed, the
  budget stays within what is left and the total stays within the maximum.
\<close>

lemma budget_within_maximum:
  assumes "totalNumberOfSamples s \<le> MaxNumberOfSamples (userSettings s)"
  shows "numberOfSamples (TrackSampleCount s)
           \<le> MaxNumberOfSamples (userSettings s) - totalNumberOfSamples s"
    and "totalNumberOfSamples (TrackSampleCount s) \<le> MaxNumberOfSamples (userSettings (TrackSampleCount s))"
proof -
  let ?m = "MaxNumberOfSamples (userSettings s)" and ?t = "totalNumberOfSamples s"
  let ?n = "numberOfSamples (TrackSampleCount s)"
  show le: "?n \<le> ?m - ?t"
    by (simp add: numberOfSamples_TrackSampleCount glm_clamp_def)
  have u: "unat (?m - ?t) = unat ?m - unat ?t"
    using assms by (simp add: unat_sub)
  from le have "unat ?n \<le> unat ?m - unat ?t"
    by (simp add: word_le_nat_alt u)
  moreover from assms have "unat ?t \<le> unat ?m" by (simp add: word_le_nat_alt)
  ultimately have sum: "unat ?t + unat ?n \<le> unat ?m" by arith
  have "unat ?m < 2 ^ LENGTH(32)" by (rule unsigned_less)
  with sum have "unat ?t + unat ?n < 2 ^ LENGTH(32)" by arith
  then have "unat (?t + ?n) = unat ?t + unat ?n"
    by (simp only: unat_add_lem [THEN iffD1])
  with sum have "?t + ?n \<le> ?m"
    by (simp add: word_le_nat_alt)
  moreover have "userSettings (TrackSampleCount s) = userSettings s"
    by (simp add: TrackSampleCount_def Let_def)
  ultimately show "totalNumberOfSamples (TrackSampleCount s) \<le> MaxNumberOfSamples (userSettings (TrackSampleCount s))"
    by (simp add: totalNumberOfSamples_TrackSampleCount)
qed

text \<open>
  C2. The invariant \<open>samplesThisFrame \<le> maxTotalSamples - totalSamples\<close> and
  \<open>totalSamples \<le> maxTotalSamples\<close> fails once the maximum has been lowered below the
  total without a reset: with a total of 50, a maximum lowered from 100 to 10 and 10
  samples per frame, the unsigned difference \<open>10 - 50\<close> wraps around to \<open>2^32 - 40\<close>,
  the clamp against the lower bound 0 changes nothing, and the frame takes 10 more
  samples, leaving a total of 60 above the maximum of 10.
\<close>

theorem DrawFrame_lowered_maximum:
  "sceneIndex loweredMaxState = requestedScene loweredMaxState \<and>
   \<not> resetRequired sampleEnv loweredMaxState \<and>
   totalNumberOfSamples loweredMaxState = 50 \<and>
   MaxNumberOfSamples (userSettings loweredMaxState) = 10 \<and>
   numberOfSamples (state_of (DrawFrame sampleEnv loweredMaxState)) = 10 \<and>
   totalNumberOfSamples (state_of (DrawFrame sampleEnv loweredMaxState)) = 60 \<and>
   MaxNumberOfSamples (userSettings (state_of (DrawFrame sampleEnv loweredMaxState))) = 10"
  by code_simp

section \<open>LoadScene and CreateSwapChain\<close>

lemma LoadScene_out_of_range:
  "\<not> unat idx < length (AllScenes env) \<Longrightarrow> LoadScene env idx s = Fault UndefinedBehaviour s"
  by (simp add: LoadScene_def)

lemma LoadScene_in_range:
  assumes "unat idx < length (AllScenes env)"
  shows "\<exists>s'. LoadScene env idx s = Done s' \<and>
           trace s' = trace s @ loadEvents env idx s \<and>
           sceneIndex s' = idx \<and>
           scene s' = Some \<lparr>sceneModels = fst (fst (sceneAssets env idx s)),
                             sceneTextures = (if snd (fst (sceneAssets env idx s)) = []
                                              then [white_png]
                                              else snd (fst (sceneAssets env idx s)))\<rparr> \<and>
           cameraInitialSate s' = snd (sceneAssets env idx s) \<and>
           userSettings s' = (userSettings s)
             \<lparr>FieldOfView := camFieldOfView (snd (sceneAssets env idx s)),
              Aperture := camAperture (snd (sceneAssets env idx s)),
              FocusDistance := camFocusDistance (snd (sceneAssets env idx s)),
              GammaCorrection := camGammaCorrection (snd (sceneAssets env idx s))\<rparr> \<and>
           modelViewController s' =
             ControllerReset env (camModelView (snd (sceneAssets env idx s))) (modelViewController s) \<and>
           periodTotalFrames s' = 0 \<and>
           resetAccumulation s' \<and>
           previousSettings s' = previousSettings s \<and>
           totalNumberOfSamples s' = totalNumberOfSamples s \<and>
           numberOfSamples s' = numberOfSamples s"
  using assms
  by (cases "snd (AllScenes env ! unat idx) (cameraInitialSate s)")
     (auto simp: LoadScene_def sceneAssets_def loadEvents_def Let_def emit_def)

lemma CreateSwapChain_state:
  "state_of (CreateSwapChain env s) =
     (emit EvUICreate (emit EvAppCreateSwapChain s))\<lparr>resetAccumulation := True\<rparr>"
  by (simp add: CreateSwapChain_def CheckFramebufferSize_def Let_def)

section \<open>The accumulation reset (DrawFrame, lines 99-106)\<close>

text \<open>
  C3, as stated, fails on a frame with a scene change: \<open>DrawFrame\<close> returns before the
  reset check, so a pending reset leaves the total of 50 untouched on that frame.
\<close>

theorem DrawFrame_scene_change_keeps_total:
  "resetAccumulation pendingResetState \<and>
   totalNumberOfSamples pendingResetState = 50 \<and>
   totalNumberOfSamples (state_of (DrawFrame sampleEnv pendingResetState)) = 50"
  by code_simp

text \<open>
  C3, amended. On every frame without scene change the reset check sets the total to 0
  if the reset flag is set, or \<open>RequiresAccumulationReset\<close> holds of the settings and
  their previous snapshot, or \<open>AccumulateRays\<close> is off, and leaves it unchanged
  otherwise; the frame then returns with this total plus the samples of the frame. The
  reset flag is set by \<open>CreateSwapChain\<close> and by every \<open>LoadScene\<close> of a scene of the
  registry.
\<close>

theorem DrawFrame_accumulation_reset:
  "(sceneIndex s = requestedScene s \<longrightarrow>
      totalNumberOfSamples (CheckAccumulationReset env s) =
        (if resetAccumulation s \<or>
            RequiresAccumulationReset env (userSettings s) (previousSettings s) \<or>
            \<not> AccumulateRays (userSettings s)
         then 0 else totalNumberOfSamples s) \<and>
      DrawFrame env s = Done (emit EvAppDrawFrame (TrackSampleCount (CheckAccumulationReset env s))) \<and>
      totalNumberOfSamples (state_of (DrawFrame env s)) =
        (if resetAccumulation s \<or>
            RequiresAccumulationReset env (userSettings s) (previousSettings s) \<or>
            \<not> AccumulateRays (userSettings s)
         then 0 else totalNumberOfSamples s)
        + numberOfSamples (state_of (DrawFrame env s))) \<and>
   resetAccumulation (state_of (CreateSwapChain env s)) \<and>
   (unat idx < length (AllScenes env) \<longrightarrow> resetAccumulation (state_of (LoadScene env idx s)))"
proof (intro conjI impI)
  assume "unat idx < length (AllScenes env)"
  from LoadScene_in_range [OF this, of s]
  show "resetAccumulation (state_of (LoadScene env idx s))" by auto
qed (simp_all add: DrawFrame_same_scene CheckAccumulationReset_def resetRequired_def
      totalNumberOfSamples_TrackSampleCount CreateSwapChain_state)

lemma pendingFlagState_same_scene: "sceneIndex pendingFlagState = requestedScene pendingFlagState"
  by code_simp

lemma pendingFlagState_fields:
  "resetAccumulation pendingFlagState"
  "totalNumberOfSamples pendingFlagState = 50"
  "MaxNumberOfSamples (userSettings pendingFlagState) = 100"
  "NumberOfSamples (userSettings pendingFlagState) = 10"
  by (simp_all add: pendingFlagState_def sampleState_def sampleSettings_def)

theorem DrawFrame_accumulation_reset_witness:
  "sceneIndex pendingFlagState = requestedScene pendingFlagState \<and>
   unat (1 :: u32) < length (AllScenes sampleEnv) \<and>
   resetAccumulation pendingFlagState \<and>
   totalNumberOfSamples pendingFlagState = 50 \<and>
   totalNumberOfSamples (CheckAccumulationReset sampleEnv pendingFlagState) = 0 \<and>
   totalNumberOfSamples (state_of (DrawFrame sampleEnv pendingFlagState)) = 10 \<and>
   resetAccumulation (state_of (LoadScene sampleEnv 1 pendingFlagState))"
proof -
  have rng: "unat (1 :: u32) < length (AllScenes sampleEnv)" by (simp add: sampleEnv_def)
  have n: "numberOfSamples (state_of (DrawFrame sampleEnv pendingFlagState)) = 10"
    by (simp add: DrawFrame_same_scene [OF pendingFlagState_same_scene]
        numberOfSamples_TrackSampleCount CheckAccumulationReset_def resetRequired_def
        pendingFlagState_fields glm_clamp_def)
  note T = DrawFrame_accumulation_reset [of pendingFlagState sampleEnv 1]
  from T pendingFlagState_same_scene
  have "totalNumberOfSamples (CheckAccumulationReset sampleEnv pendingFlagState) =
        (if resetAccumulation pendingFlagState \<or>
            RequiresAccumulationReset sampleEnv (userSettings pendingFlagState)
              (previousSettings pendingFlagState) \<or>
            \<not> AccumulateRays (userSettings pendingFlagState)
         then 0 else totalNumberOfSamples pendingFlagState)"
    and "totalNumberOfSamples (state_of (DrawFrame sampleEnv pendingFlagState)) =
        (if resetAccumulation pendingFlagState \<or>
            RequiresAccumulationReset sampleEnv (userSettings pendingFlagState)
              (previousSettings pendingFlagState) \<or>
            \<not> AccumulateRays (userSettings pendingFlagState)
         then 0 else totalNumberOfSamples pendingFlagState)
        + numberOfSamples (state_of (DrawFrame sampleEnv pendingFlagState))"
    by blast+
  then have a: "totalNumberOfSamples (CheckAccumulationReset sampleEnv pendingFlagState) = 0"
    and b: "totalNumberOfSamples (state_of (DrawFrame sampleEnv pendingFlagState)) = 10"
    by (simp_all only: pendingFlagState_fields(1) n if_True simp_thms add_0)
  from T rng have c: "resetAccumulation (state_of (LoadScene sampleEnv 1 pendingFlagState))"
    by blast
  from pendingFlagState_same_scene rng pendingFlagState_fields(1,2) a b c
  show ?thesis by blast
qed

section \<open>The scene change (DrawFrame, lines 88-97)\<close>

lemma DrawFrame_scene_change:
  "sceneIndex s \<noteq> requestedScene s \<Longrightarrow>
   DrawFrame env s =
     andThen (LoadScene env (requestedScene s) (teardown s))
       (\<lambda>s'. CreateSwapChain env (emit EvCreateAccelerationStructures s'))"
  by (simp add: DrawFrame_def teardown_def)

lemma DrawFrame_scene_change_in_range:
  assumes "sceneIndex s \<noteq> requestedScene s" and "unat (requestedScene s) < length (AllScenes env)"
  shows "trace (state_of (DrawFrame env s)) =
           trace s @ [EvWaitIdle, EvUIDestroy, EvAppDeleteSwapChain, EvDeleteAccelerationStructures]
             @ loadEvents env (requestedScene s) s
             @ [EvCreateAccelerationStructures, EvAppCreateSwapChain, EvUICreate]"
    and "sceneIndex (state_of (DrawFrame env s)) = requestedScene s"
    and "resetAccumulation (state_of (DrawFrame env s))"
    and "previousSettings (state_of (DrawFrame env s)) = previousSettings s"
    and "totalNumberOfSamples (state_of (DrawFrame env s)) = totalNumberOfSamples s"
    and "numberOfSamples (state_of (DrawFrame env s)) = numberOfSamples s"
proof -
  from LoadScene_in_range [OF assms(2), of "teardown s"]
  obtain s' where L: "LoadScene env (requestedScene s) (teardown s) = Done s'"
    and tr: "trace s' = trace (teardown s) @ loadEvents env (requestedScene s) (teardown s)"
    and ix: "sceneIndex s' = requestedScene s"
    and keep: "previousSettings s' = previousSettings (teardown s)"
      "totalNumberOfSamples s' = totalNumberOfSamples (teardown s)"
      "numberOfSamples s' = numberOfSamples (teardown s)"
    by blast
  have le: "loadEvents env (requestedScene s) (teardown s) = loadEvents env (requestedScene s) s"
    by (rule loadEvents_cong) simp_all
  have D: "state_of (DrawFrame env s) =
      (emit EvUICreate (emit EvAppCreateSwapChain (emit EvCreateAccelerationStructures s')))
        \<lparr>resetAccumulation := True\<rparr>"
    by (simp add: DrawFrame_scene_change [OF assms(1)] L CreateSwapChain_state)
  show "trace (state_of (DrawFrame env s)) =
           trace s @ [EvWaitIdle, EvUIDestroy, EvAppDeleteSwapChain, EvDeleteAccelerationStructures]
             @ loadEvents env (requestedScene s) s
             @ [EvCreateAccelerationStructures, EvAppCreateSwapChain, EvUICreate]"
    by (simp add: D tr le)
  show "sceneIndex (state_of (DrawFrame env s)) = requestedScene s" by (simp add: D ix)
  show "resetAccumulation (state_of (DrawFrame env s))" by (simp add: D)
  show "previousSettings (state_of (DrawFrame env s)) = previousSettings s" by (simp add: D keep)
  show "totalNumberOfSamples (state_of (DrawFrame env s)) = totalNumberOfSamples s" by (simp add: D keep)
  show "numberOfSamples (state_of (DrawFrame env s)) = numberOfSamples s" by (simp add: D keep)
qed

lemma DrawFrame_scene_change_out_of_range:
  assumes "sceneIndex s \<noteq> requestedScene s" and "\<not> unat (requestedScene s) < length (AllScenes env)"
  shows "DrawFrame env s = Fault UndefinedBehaviour (teardown s)"
  by (simp add: DrawFrame_scene_change [OF assms(1)] LoadScene_out_of_range [OF assms(2)])

text \<open>
  C8, as stated, fails when the requested index is outside the registry: after the
  device-idle wait and the two teardowns, \<open>LoadScene\<close> subscripts the registry out of
  bounds; nothing is loaded and nothing is rebuilt.
\<close>

theorem DrawFrame_outside_registry_stops:
  "sceneIndex outsideRequestState \<noteq> requestedScene outsideRequestState \<and>
   DrawFrame sampleEnv outsideRequestState =
     Fault UndefinedBehaviour (teardown outsideRequestState) \<and>
   trace (state_of (DrawFrame sampleEnv outsideRequestState)) =
     [EvWaitIdle, EvUIDestroy, EvAppDeleteSwapChain, EvDeleteAccelerationStructures]"
proof -
  have a: "sceneIndex outsideRequestState \<noteq> requestedScene outsideRequestState"
    and b: "\<not> unat (requestedScene outsideRequestState) < length (AllScenes sampleEnv)"
    and c: "trace outsideRequestState = []"
    by (simp_all add: outsideRequestState_def sampleState_def sampleSettings_def
        requestedScene_def sampleEnv_def)
  from DrawFrame_scene_change_out_of_range [OF a b] a c show ?thesis by simp
qed

text \<open>
  C8, amended. Whenever the active scene index differs from the requested one, the
  frame first waits for the device to go idle, then destroys the user interface and the
  swap chain, then the acceleration structures; the wait precedes every teardown,
  whatever the requested index is. When the requested index is a scene of the registry
  the frame goes on to load the scene, to create the acceleration structures and to
  create the swap chain and the user interface, in this order and with no other
  collaborator call, and the requested scene becomes the active one.
\<close>

theorem DrawFrame_scene_change_order:
  assumes "sceneIndex s \<noteq> requestedScene s"
  shows "(\<exists>rest. trace (state_of (DrawFrame env s)) =
            trace s @ [EvWaitIdle, EvUIDestroy, EvAppDeleteSwapChain, EvDeleteAccelerationStructures] @ rest) \<and>
         (unat (requestedScene s) < length (AllScenes env) \<longrightarrow>
            trace (state_of (DrawFrame env s)) =
              trace s @ [EvWaitIdle, EvUIDestroy, EvAppDeleteSwapChain, EvDeleteAccelerationStructures]
                @ loadEvents env (requestedScene s) s
                @ [EvCreateAccelerationStructures, EvAppCreateSwapChain, EvUICreate] \<and>
            sceneIndex (state_of (DrawFrame env s)) = requestedScene s)"
proof (cases "unat (requestedScene s) < length (AllScenes env)")
  case True
  from DrawFrame_scene_change_in_range(1,2) [OF assms True] show ?thesis by simp
next
  case False
  from DrawFrame_scene_change_out_of_range [OF assms False] show ?thesis
    by (simp add: False)
qed

theorem DrawFrame_scene_change_order_witness:
  "sceneIndex pendingResetState \<noteq> requestedScene pendingResetState \<and>
   unat (requestedScene pendingResetState) < length (AllScenes sampleEnv) \<and>
   trace (state_of (DrawFrame sampleEnv pendingResetState)) =
     [EvWaitIdle, EvUIDestroy, EvAppDeleteSwapChain, EvDeleteAccelerationStructures,
      EvNewScene, EvDeleteScene,
      EvCreateAccelerationStructures, EvAppCreateSwapChain, EvUICreate] \<and>
   sceneIndex (state_of (DrawFrame sampleEnv pendingResetState)) = 1"
proof -
  have a: "sceneIndex pendingResetState \<noteq> requestedScene pendingResetState"
    and b: "unat (requestedScene pendingResetState) < length (AllScenes sampleEnv)"
    and c: "requestedScene pendingResetState = 1"
    and d: "trace pendingResetState = []"
    and e: "loadEvents sampleEnv 1 pendingResetState = [EvNewScene, EvDeleteScene]"
    by code_simp+
  from DrawFrame_scene_change_order [OF a, of sampleEnv] a b c d e
  show ?thesis by simp
qed

lemma DrawFrame_scene_change_counters:
  assumes "sceneIndex s \<noteq> requestedScene s"
  shows "totalNumberOfSamples (state_of (DrawFrame env s)) = totalNumberOfSamples s \<and>
         numberOfSamples (state_of (DrawFrame env s)) = numberOfSamples s \<and>
         previousSettings (state_of (DrawFrame env s)) = previousSettings s \<and>
         EvAppDrawFrame \<notin> set (newEvents s (state_of (DrawFrame env s))) \<and>
         EvRenderRayTraced \<notin> set (newEvents s (state_of (DrawFrame env s))) \<and>
         EvRenderRasterized \<notin> set (newEvents s (state_of (DrawFrame env s))) \<and>
         (unat (requestedScene s) < length (AllScenes env) \<longrightarrow>
            resetAccumulation (state_of (DrawFrame env s)))"
proof (cases "unat (requestedScene s) < length (AllScenes env)")
  case True
  note R = DrawFrame_scene_change_in_range [OF assms True]
  have "newEvents s (state_of (DrawFrame env s)) =
      [EvWaitIdle, EvUIDestroy, EvAppDeleteSwapChain, EvDeleteAccelerationStructures]
             @ loadEvents env (requestedScene s) s
             @ [EvCreateAccelerationStructures, EvAppCreateSwapChain, EvUICreate]"
    by (rule newEvents_append) (simp add: R(1))
  then show ?thesis
    using R(3-6) by (simp add: loadEvents_def)
next
  case False
  note R = DrawFrame_scene_change_out_of_range [OF assms False]
  have "newEvents s (state_of (DrawFrame env s)) =
      [EvWaitIdle, EvUIDestroy, EvAppDeleteSwapChain, EvDeleteAccelerationStructures]"
    by (rule newEvents_append) (simp add: R)
  then show ?thesis
    by (simp add: R False)
qed

text \<open>
  C10. On a frame with a scene change \<open>DrawFrame\<close> is the teardown, reload and rebuild
  sequence and nothing else: the total and the per-frame sample counts and the settings
  snapshot are those of the previous frame, neither the base class's \<open>DrawFrame\<close> nor
  a render call is made, and the reset flag raised by the reload is still pending
  afterwards, the reset check having been skipped.
\<close>

theorem DrawFrame_scene_change_skips_accumulation:
  assumes "sceneIndex s \<noteq> requestedScene s"
  shows "DrawFrame env s =
           andThen (LoadScene env (requestedScene s)
                      (emit EvDeleteAccelerationStructures (DeleteSwapChain (emit EvWaitIdle s))))
             (\<lambda>s'. CreateSwapChain env (emit EvCreateAccelerationStructures s')) \<and>
         totalNumberOfSamples (state_of (DrawFrame env s)) = totalNumberOfSamples s \<and>
         numberOfSamples (state_of (DrawFrame env s)) = numberOfSamples s \<and>
         previousSettings (state_of (DrawFrame env s)) = previousSettings s \<and>
         EvAppDrawFrame \<notin> set (newEvents s (state_of (DrawFrame env s))) \<and>
         EvRenderRayTraced \<notin> set (newEvents s (state_of (DrawFrame env s))) \<and>
         EvRenderRasterized \<notin> set (newEvents s (state_of (DrawFrame env s))) \<and>
         (unat (requestedScene s) < length (AllScenes env) \<longrightarrow>
            resetAccumulation (state_of (DrawFrame env s)))"
proof (rule conjI)
  show "DrawFrame env s =
           andThen (LoadScene env (requestedScene s)
                      (emit EvDeleteAccelerationStructures (DeleteSwapChain (emit EvWaitIdle s))))
             (\<lambda>s'. CreateSwapChain env (emit EvCreateAccelerationStructures s'))"
    using assms by (simp add: DrawFrame_def)
qed (rule DrawFrame_scene_change_counters [OF assms])

theorem DrawFrame_scene_change_skips_accumulation_witness:
  "sceneIndex pendingResetState \<noteq> requestedScene pendingResetState \<and>
   unat (requestedScene pendingResetState) < length (AllScenes sampleEnv) \<and>
   totalNumberOfSamples (state_of (DrawFrame sampleEnv pendingResetState)) = 50 \<and>
   numberOfSamples (state_of (DrawFrame sampleEnv pendingResetState)) = 10 \<and>
   previousSettings (state_of (DrawFrame sampleEnv pendingResetState)) = sampleSettings \<and>
   EvAppDrawFrame \<notin> set (newEvents pendingResetState (state_of (DrawFrame sampleEnv pendingResetState))) \<and>
   resetAccumulation (state_of (DrawFrame sampleEnv pendingResetState))"
proof -
  have a: "sceneIndex pendingResetState \<noteq> requestedScene pendingResetState"
    and b: "unat (requestedScene pendingResetState) < length (AllScenes sampleEnv)"
    by code_simp+
  have c: "totalNumberOfSamples pendingResetState = 50" "numberOfSamples pendingResetState = 10"
    "previousSettings pendingResetState = sampleSettings"
    by (simp_all add: pendingResetState_def sampleState_def)
  note T = DrawFrame_scene_change_skips_accumulation [OF a, of sampleEnv]
  from T b have "totalNumberOfSamples (state_of (DrawFrame sampleEnv pendingResetState))
        = totalNumberOfSamples pendingResetState"
    and "numberOfSamples (state_of (DrawFrame sampleEnv pendingResetState))
        = numberOfSamples pendingResetState"
    and "previousSettings (state_of (DrawFrame sampleEnv pendingResetState))
        = previousSettings pendingResetState"
    and d: "EvAppDrawFrame \<notin> set (newEvents pendingResetState (state_of (DrawFrame sampleEnv pendingResetState)))"
    and e: "resetAccumulation (state_of (DrawFrame sampleEnv pendingResetState))"
    by blast+
  then have f: "totalNumberOfSamples (state_of (DrawFrame sampleEnv pendingResetState)) = 50"
    "numberOfSamples (state_of (DrawFrame sampleEnv pendingResetState)) = 10"
    "previousSettings (state_of (DrawFrame sampleEnv pendingResetState)) = sampleSettings"
    by (simp_all only: c)
  from a b f d e show ?thesis by blast
qed

section \<open>LoadScene and the bounds of the registry (lines 210-232)\<close>

text \<open>
  C9, as stated, fails: \<open>LoadScene\<close> does not check the index. With two scenes in the
  registry, index 2 reaches the unchecked subscript on line 212; no error is raised.
\<close>

theorem LoadScene_outside_registry:
  "unat (2 :: u32) \<ge> length (AllScenes sampleEnv) \<and>
   LoadScene sampleEnv 2 sampleState = Fault UndefinedBehaviour sampleState \<and>
   LoadScene sampleEnv 2 sampleState \<noteq> Fault RuntimeError sampleState"
  by (simp add: LoadScene_def sampleEnv_def)

text \<open>
  C9, amended. For every index inside the registry \<open>LoadScene\<close> returns, having
  replaced the scene, the active scene index and the camera initial state, copied the
  optical parameters into the settings, reset the controller and the frame counter and
  set the reset flag. For every index outside the registry the first statement of
  \<open>LoadScene\<close> is an out-of-bounds subscript, which is undefined behaviour: no error
  is raised, and no member has been written before that point.
\<close>

theorem LoadScene_registry_bounds:
  "(unat idx < length (AllScenes env) \<longrightarrow>
      (\<exists>s'. LoadScene env idx s = Done s' \<and>
         sceneIndex s' = idx \<and>
         scene s' = Some \<lparr>sceneModels = fst (fst (sceneAssets env idx s)),
                           sceneTextures = (if snd (fst (sceneAssets env idx s)) = []
                                            then [white_png]
                                            else snd (fst (sceneAssets env idx s)))\<rparr> \<and>
         cameraInitialSate s' = snd (sceneAssets env idx s) \<and>
         userSettings s' = (userSettings s)
           \<lparr>FieldOfView := camFieldOfView (snd (sceneAssets env idx s)),
            Aperture := camAperture (snd (sceneAssets env idx s)),
            FocusDistance := camFocusDistance (snd (sceneAssets env idx s)),
            GammaCorrection := camGammaCorrection (snd (sceneAssets env idx s))\<rparr> \<and>
         modelViewController s' =
           ControllerReset env (camModelView (snd (sceneAssets env idx s))) (modelViewController s) \<and>
         periodTotalFrames s' = 0 \<and>
         resetAccumulation s'))
   \<and> (\<not> unat idx < length (AllScenes env) \<longrightarrow>
         LoadScene env idx s = Fault UndefinedBehaviour s)"
proof (intro conjI impI)
  assume "unat idx < length (AllScenes env)"
  from LoadScene_in_range [OF this, of s]
  show "\<exists>s'. LoadScene env idx s = Done s' \<and>
         sceneIndex s' = idx \<and>
         scene s' = Some \<lparr>sceneModels = fst (fst (sceneAssets env idx s)),
                           sceneTextures = (if snd (fst (sceneAssets env idx s)) = []
                                            then [white_png]
                                            else snd (fst (sceneAssets env idx s)))\<rparr> \<and>
         cameraInitialSate s' = snd (sceneAssets env idx s) \<and>
         userSettings s' = (userSettings s)
           \<lparr>FieldOfView := camFieldOfView (snd (sceneAssets env idx s)),
            Aperture := camAperture (snd (sceneAssets env idx s)),
            FocusDistance := camFocusDistance (snd (sceneAssets env idx s)),
            GammaCorrection := camGammaCorrection (snd (sceneAssets env idx s))\<rparr> \<and>
         modelViewController s' =
           ControllerReset env (camModelView (snd (sceneAssets env idx s))) (modelViewController s) \<and>
         periodTotalFrames s' = 0 \<and>
         resetAccumulation s'"
    by blast
next
  assume "\<not> unat idx < length (AllScenes env)"
  then show "LoadScene env idx s = Fault UndefinedBehaviour s"
    by (rule LoadScene_out_of_range)
qed

theorem LoadScene_registry_bounds_witness:
  "unat (1 :: u32) < length (AllScenes sampleEnv) \<and>
   \<not> unat (2 :: u32) < length (AllScenes sampleEnv) \<and>
   (\<exists>s'. LoadScene sampleEnv 1 sampleState = Done s' \<and> sceneIndex s' = 1 \<and>
          scene s' = Some \<lparr>sceneModels = [''sphere''], sceneTextures = [''land.jpg'']\<rparr> \<and>
          cameraInitialSate s' = sampleCamera \<and>
          periodTotalFrames s' = 0 \<and> resetAccumulation s') \<and>
   LoadScene sampleEnv 2 sampleState = Fault UndefinedBehaviour sampleState"
proof -
  have a: "unat (1 :: u32) < length (AllScenes sampleEnv)"
    and b: "\<not> unat (2 :: u32) < length (AllScenes sampleEnv)"
    and c: "sceneAssets sampleEnv 1 sampleState = (([''sphere''], [''land.jpg'']), sampleCamera)"
    by (simp_all add: sampleEnv_def sceneAssets_def sampleFactory_def)
  from LoadScene_registry_bounds [of 1 sampleEnv sampleState]
    LoadScene_registry_bounds [of 2 sampleEnv sampleState] a b
  show ?thesis by (auto simp: c)
qed

section \<open>The camera update (Render, lines 124-125)\<close>

lemma CheckSceneLimits_fields [simp]:
  "resetAccumulation (state_of (CheckSceneLimits env now s)) = resetAccumulation s"
  "numberOfSamples (state_of (CheckSceneLimits env now s)) = numberOfSamples s"
  "time (state_of (CheckSceneLimits env now s)) = time s"
  "periodInitialTime (state_of (CheckSceneLimits env now s)) = periodInitialTime s"
  "periodTotalFrames (state_of (CheckSceneLimits env now s)) = periodTotalFrames s"
  "sceneInitialTime (state_of (CheckSceneLimits env now s)) = sceneInitialTime s"
  "sceneIndex (state_of (CheckSceneLimits env now s)) = sceneIndex s"
  "Benchmark (userSettings (state_of (CheckSceneLimits env now s))) = Benchmark (userSettings s)"
  by (simp_all add: CheckSceneLimits_def Let_def)

lemma ReportFrameRate_fields [simp]:
  "resetAccumulation (ReportFrameRate env prevTime s) = resetAccumulation s"
  "numberOfSamples (ReportFrameRate env prevTime s) = numberOfSamples s"
  "userSettings (ReportFrameRate env prevTime s) = userSettings s"
  "time (ReportFrameRate env prevTime s) = time s"
  "sceneInitialTime (ReportFrameRate env prevTime s) = sceneInitialTime s"
  "sceneIndex (ReportFrameRate env prevTime s) = sceneIndex s"
  by (simp_all add: ReportFrameRate_def Let_def)

lemma InitialiseBenchmarkTimers_fields [simp]:
  "resetAccumulation (state_of (InitialiseBenchmarkTimers env s)) = resetAccumulation s"
  "numberOfSamples (state_of (InitialiseBenchmarkTimers env s)) = numberOfSamples s"
  "userSettings (state_of (InitialiseBenchmarkTimers env s)) = userSettings s"
  "time (state_of (InitialiseBenchmarkTimers env s)) = time s"
  "periodTotalFrames (state_of (InitialiseBenchmarkTimers env s)) = periodTotalFrames s"
  by (simp_all add: InitialiseBenchmarkTimers_def)

lemma CheckAndUpdateBenchmarkState_reset [simp]:
  "resetAccumulation (state_of (CheckAndUpdateBenchmarkState env now prevTime s)) = resetAccumulation s"
proof (cases "InitialiseBenchmarkTimers env s")
  case (Done s1)
  then have "resetAccumulation s1 = resetAccumulation s"
    using InitialiseBenchmarkTimers_fields(1) [of env s] by simp
  with Done show ?thesis by (simp add: CheckAndUpdateBenchmarkState_def)
next
  case (Fault e s1)
  then have "resetAccumulation s1 = resetAccumulation s"
    using InitialiseBenchmarkTimers_fields(1) [of env s] by simp
  with Fault show ?thesis by (simp add: CheckAndUpdateBenchmarkState_def)
qed





section \<open>The input handlers (lines 154-208)\<close>

text \<open>
  The cursor and mouse-button handlers ignore their event in benchmark mode and when
  the user interface claims the focus; the key handler ignores it when the user
  interface claims the keyboard.
\<close>

lemma OnCursorPosition_ignored:
  "Benchmark (userSettings s) \<or> wantsKeyboard \<or> wantsMouse \<Longrightarrow>
   OnCursorPosition env wantsKeyboard wantsMouse xpos ypos s = s"
  by (simp add: OnCursorPosition_def)

lemma OnMouseButton_ignored:
  "Benchmark (userSettings s) \<or> wantsMouse \<Longrightarrow>
   OnMouseButton env wantsMouse button action mods s = s"
  by (simp add: OnMouseButton_def)

lemma OnKey_ignored:
  "wantsKeyboard \<Longrightarrow> OnKey env wantsKeyboard key scancode action mods s = s"
  by (simp add: OnKey_def)

text \<open>
  C5. The key handler does not ignore a key in benchmark mode: only the settings
  toggles are guarded by the benchmark flag. With benchmark mode on and the keyboard
  not claimed by the user interface, the W key reaches the camera controller, the
  camera moves and the reset flag is raised.
\<close>

theorem OnKey_moves_camera_in_benchmark:
  "Benchmark (userSettings benchmarkState) \<and>
   modelViewController benchmarkState = 0 \<and>
   resetAccumulation benchmarkState = False \<and>
   modelViewController (OnKey sampleEnv False GLFW_KEY_W 0 GLFW_PRESS 0 benchmarkState) = 1 \<and>
   resetAccumulation (OnKey sampleEnv False GLFW_KEY_W 0 GLFW_PRESS 0 benchmarkState) = True"
  by code_simp

section \<open>Leaving the scene in benchmark mode (lines 266-281)\<close>

lemma InitialiseBenchmarkTimers_Done:
  assumes "unat (sceneIndex s) < length (AllScenes env)"
  shows "InitialiseBenchmarkTimers env s =
     Done (if periodTotalFrames s = 0
           then (emit (EvPrintStartScene (sceneIndex s) (fst (AllScenes env ! unat (sceneIndex s))))
                  (emit EvPrintNewline s))
                  \<lparr>sceneInitialTime := time s, periodInitialTime := time s\<rparr>
           else s)"
  using assms by (simp add: InitialiseBenchmarkTimers_def)

lemma closesWindow_iff:
  assumes "0 \<le> SceneIndex (userSettings s)" and "SceneIndex (userSettings s) < 2 ^ 31"
    and "length (AllScenes env) < 2 ^ 64"
  shows "closesWindow env s \<longleftrightarrow> \<not> BenchmarkNextScenes (userSettings s) \<or> lastScene env s"
proof -
  let ?i = "SceneIndex (userSettings s)" and ?n = "length (AllScenes env)"
  have i64: "?i < 2 ^ 64" using assms(2) by simp
  have "(word_of_int ?i :: u64) = word_of_nat ?n - 1 \<longleftrightarrow> ?i = int ?n - 1"
  proof (cases ?n)
    case 0
    have "(word_of_int ?i :: u64) \<noteq> - 1"
    proof
      assume "(word_of_int ?i :: u64) = - 1"
      then have "uint (word_of_int ?i :: u64) = uint (- 1 :: u64)" by simp
      then have "?i = 2 ^ 64 - 1"
        using assms(1) i64
        by (simp add: uint_word_of_int take_bit_int_eq_self unsigned_minus_1_eq_mask mask_eq_exp_minus_1)
      with assms(2) show False by simp
    qed
    with 0 assms(1) show ?thesis by simp
  next
    case (Suc m)
    then have m: "int m < 2 ^ 64" using assms(3) by simp
    have "(word_of_nat ?n :: u64) - 1 = word_of_int (int m)" by (simp add: Suc)
    moreover have "(word_of_int ?i :: u64) = word_of_int (int m) \<longleftrightarrow> ?i = int m"
    proof -
      have a: "uint (word_of_int ?i :: u64) = ?i"
        using assms(1) i64 by (simp add: uint_word_of_int take_bit_int_eq_self)
      have b: "uint (word_of_int (int m) :: u64) = int m"
        using m by (simp only: uint_word_of_int_eq) (simp add: take_bit_int_eq_self)
      show ?thesis
        by (simp only: word_uint_eq_iff a b)
    qed
    ultimately show ?thesis by (simp add: Suc)
  qed
  then show ?thesis by (simp add: closesWindow_def lastScene_def)
qed

lemma periodTotalFrames_ReportFrameRate:
  "periodTotalFrames (ReportFrameRate env prevTime s) =
     (if periodCrossed env prevTime s then 1 else periodTotalFrames s + 1)"
  by (simp add: ReportFrameRate_def Let_def)

lemma trace_ReportFrameRate:
  "trace (ReportFrameRate env prevTime s) =
     trace s @ (if periodCrossed env prevTime s
                then [EvPrintFps (periodTotalFrames s) (fsub env (time s) (periodInitialTime s))]
                else [])"
  by (simp add: ReportFrameRate_def Let_def)

lemma trace_CheckSceneLimits:
  "trace (state_of (CheckSceneLimits env now s)) =
     trace s @ (if limitReached env now s
                then (if closesWindow env s then [EvWindowClose] else []) @ [EvPrintNewline]
                else [])"
  by (simp add: CheckSceneLimits_def Let_def)

text \<open>Below \<open>INT_MAX\<close> the increment on line 279 is defined.\<close>

lemma CheckSceneLimits_Done:
  assumes "SceneIndex (userSettings s) < INT_MAX"
  shows "\<exists>s'. CheckSceneLimits env now s = Done s' \<and>
           SceneIndex (userSettings s') =
             SceneIndex (userSettings s) + (if limitReached env now s then 1 else 0)"
  using assms by (simp add: CheckSceneLimits_def Let_def)

text \<open>At \<open>INT_MAX\<close> it is not.\<close>

lemma CheckSceneLimits_overflow:
  assumes "SceneIndex (userSettings s) = INT_MAX" and "limitReached env now s"
  shows "\<exists>s'. CheckSceneLimits env now s = Fault UndefinedBehaviour s'"
  using assms by (simp add: CheckSceneLimits_def Let_def)

lemma u32_succ_nonzero:
  fixes x :: u32
  assumes "unat x < 2 ^ 32 - 1"
  shows "x + 1 \<noteq> 0"
proof
  assume "x + 1 = 0"
  then have "x = - 1" by (simp add: eq_neg_iff_add_eq_0)
  then have "unat x = 2 ^ 32 - 1" by (simp add: unsigned_minus_1_eq_mask mask_eq_exp_minus_1)
  with assms show False by simp
qed

lemma benchmark_frame:
  assumes ok: "benchmarkFrameOk env s"
  shows "\<exists>s'. CheckAndUpdateBenchmarkState env now prevTime s = Done s' \<and>
           SceneIndex (userSettings s') =
             SceneIndex (userSettings s) + (if sceneLimitReached env now s then 1 else 0) \<and>
           count_list (newEvents s s') EvWindowClose =
             (if sceneLimitReached env now s \<and>
                 (\<not> BenchmarkNextScenes (userSettings s) \<or> lastScene env s)
              then 1 else 0)"
proof -
  let ?s1 = "if periodTotalFrames s = 0
           then (emit (EvPrintStartScene (sceneIndex s) (fst (AllScenes env ! unat (sceneIndex s))))
                  (emit EvPrintNewline s))
                  \<lparr>sceneInitialTime := time s, periodInitialTime := time s\<rparr>
           else s"
  let ?s2 = "ReportFrameRate env prevTime ?s1"
  from ok have bench: "Benchmark (userSettings s)"
    and rng: "unat (sceneIndex s) < length (AllScenes env)"
    and reg: "length (AllScenes env) < 2 ^ 64"
    and idx: "0 \<le> SceneIndex (userSettings s)" "SceneIndex (userSettings s) < INT_MAX"
    and nowrap: "unat (periodTotalFrames s) < 2 ^ 32 - 1"
    by (simp_all add: benchmarkFrameOk_def)
  from idx(2) have idx31: "SceneIndex (userSettings s) < 2 ^ 31" by (simp add: INT_MAX_def)
  have us: "userSettings ?s2 = userSettings s" by simp
  have ns: "numberOfSamples ?s2 = numberOfSamples s" by simp
  have st: "sceneInitialTime ?s2 = sceneStart s" by (simp add: sceneStart_def)
  from idx(2) have "SceneIndex (userSettings ?s2) < INT_MAX" by (simp only: us)
  from CheckSceneLimits_Done [OF this, of env now]
  obtain s' where cs: "CheckSceneLimits env now ?s2 = Done s'"
    and si0: "SceneIndex (userSettings s') =
             SceneIndex (userSettings ?s2) + (if limitReached env now ?s2 then 1 else 0)"
    by blast
  have run: "CheckAndUpdateBenchmarkState env now prevTime s = Done s'"
    using bench
    by (simp add: CheckAndUpdateBenchmarkState_def InitialiseBenchmarkTimers_Done [OF rng] cs)
  have frames: "periodTotalFrames ?s2 \<noteq> 0"
    using u32_succ_nonzero [OF nowrap]
    by (simp add: periodTotalFrames_ReportFrameRate)
  have lim: "limitReached env now ?s2 \<longleftrightarrow> sceneLimitReached env now s"
    unfolding limitReached_def sceneLimitReached_def using frames by (simp only: us ns st) simp
  have cw: "closesWindow env ?s2 \<longleftrightarrow> \<not> BenchmarkNextScenes (userSettings s) \<or> lastScene env s"
    using closesWindow_iff [of ?s2 env] idx(1) idx31 reg by (simp only: us lastScene_def)
  have tr1: "\<exists>evs. trace ?s2 = trace s @ evs \<and> EvWindowClose \<notin> set evs"
    by (simp add: trace_ReportFrameRate)
  then obtain evs where evs: "trace ?s2 = trace s @ evs" "EvWindowClose \<notin> set evs" by blast
  have "trace s' = trace (state_of (CheckSceneLimits env now ?s2))" by (simp only: cs state_of.simps)
  then have "newEvents s s' = evs @ (if limitReached env now ?s2
                then (if closesWindow env ?s2 then [EvWindowClose] else []) @ [EvPrintNewline]
                else [])"
    by (intro newEvents_append) (simp only: trace_CheckSceneLimits evs append_assoc)
  then have cnt: "count_list (newEvents s s') EvWindowClose =
      (if sceneLimitReached env now s \<and> (\<not> BenchmarkNextScenes (userSettings s) \<or> lastScene env s)
       then 1 else 0)"
    using evs(2) by (simp only: lim cw) (simp add: count_list_0_iff [THEN iffD2])
  have si: "SceneIndex (userSettings s') =
             SceneIndex (userSettings s) + (if sceneLimitReached env now s then 1 else 0)"
    using si0 by (simp only: lim us)
  from run si cnt show ?thesis by blast
qed

text \<open>
  C7. On a well-formed benchmark frame \<open>CheckAndUpdateBenchmarkState\<close> returns; the
  requested scene index is incremented by one if the scene time exceeds the maximum or
  no sample is left, and is unchanged otherwise; the window is asked to close exactly
  once if, in addition, the advance through the scenes is off or the requested scene is
  the last of the registry, and not at all otherwise. In particular, with one scene, a
  maximum of 5 and no advance through the scenes, a frame whose scene time exceeds 5
  increments the index once and asks the window to close once. The scene time is the
  difference the code computes in double precision.
\<close>

theorem CheckAndUpdateBenchmarkState_scene_advance:
  assumes "benchmarkFrameOk env s"
  shows "\<exists>s'. CheckAndUpdateBenchmarkState env now prevTime s = Done s' \<and>
           SceneIndex (userSettings s') =
             SceneIndex (userSettings s) + (if sceneLimitReached env now s then 1 else 0) \<and>
           count_list (newEvents s s') EvWindowClose =
             (if sceneLimitReached env now s \<and>
                 (\<not> BenchmarkNextScenes (userSettings s) \<or> lastScene env s)
              then 1 else 0) \<and>
           (length (AllScenes env) = 1 \<and> BenchmarkMaxTime (userSettings s) = 5 \<and>
            \<not> BenchmarkNextScenes (userSettings s) \<and> fsub env now (sceneStart s) > 5 \<longrightarrow>
              SceneIndex (userSettings s') = SceneIndex (userSettings s) + 1 \<and>
              count_list (newEvents s s') EvWindowClose = 1)"
proof -
  from benchmark_frame [OF assms, of now prevTime]
  obtain s' where r: "CheckAndUpdateBenchmarkState env now prevTime s = Done s'"
    and i: "SceneIndex (userSettings s') =
             SceneIndex (userSettings s) + (if sceneLimitReached env now s then 1 else 0)"
    and c: "count_list (newEvents s s') EvWindowClose =
             (if sceneLimitReached env now s \<and>
                 (\<not> BenchmarkNextScenes (userSettings s) \<or> lastScene env s)
              then 1 else 0)"
    by blast
  have "length (AllScenes env) = 1 \<and> BenchmarkMaxTime (userSettings s) = 5 \<and>
            \<not> BenchmarkNextScenes (userSettings s) \<and> fsub env now (sceneStart s) > 5 \<longrightarrow>
              SceneIndex (userSettings s') = SceneIndex (userSettings s) + 1 \<and>
              count_list (newEvents s s') EvWindowClose = 1"
    by (simp add: i c sceneLimitReached_def)
  with r i c show ?thesis by blast
qed

lemma benchmarkLateState_ok:
  "benchmarkFrameOk singleSceneEnv benchmarkLateState"
  by (simp add: benchmarkFrameOk_def singleSceneEnv_def benchmarkLateState_def
      benchmarkState_def sampleState_def sampleSettings_def sampleEnv_def INT_MAX_def)

lemma benchmarkLateState_scenario:
  "length (AllScenes singleSceneEnv) = 1"
  "BenchmarkMaxTime (userSettings benchmarkLateState) = 5"
  "\<not> BenchmarkNextScenes (userSettings benchmarkLateState)"
  "fsub singleSceneEnv 6 (sceneStart benchmarkLateState) > 5"
  "SceneIndex (userSettings benchmarkLateState) = 0"
  by (simp_all add: singleSceneEnv_def benchmarkLateState_def sceneStart_def
      benchmarkState_def sampleState_def sampleSettings_def sampleEnv_def)

theorem CheckAndUpdateBenchmarkState_scene_advance_witness:
  "benchmarkFrameOk singleSceneEnv benchmarkLateState \<and>
   length (AllScenes singleSceneEnv) = 1 \<and>
   BenchmarkMaxTime (userSettings benchmarkLateState) = 5 \<and>
   \<not> BenchmarkNextScenes (userSettings benchmarkLateState) \<and>
   fsub singleSceneEnv 6 (sceneStart benchmarkLateState) > 5 \<and>
   (\<exists>s'. CheckAndUpdateBenchmarkState singleSceneEnv 6 (11 / 2) benchmarkLateState = Done s' \<and>
         SceneIndex (userSettings s') = 1 \<and>
         count_list (newEvents benchmarkLateState s') EvWindowClose = 1)"
proof -
  from CheckAndUpdateBenchmarkState_scene_advance [OF benchmarkLateState_ok, of 6 "11 / 2"]
  obtain s' where r: "CheckAndUpdateBenchmarkState singleSceneEnv 6 (11 / 2) benchmarkLateState = Done s'"
    and sc: "length (AllScenes singleSceneEnv) = 1 \<and>
             BenchmarkMaxTime (userSettings benchmarkLateState) = 5 \<and>
             \<not> BenchmarkNextScenes (userSettings benchmarkLateState) \<and>
             fsub singleSceneEnv 6 (sceneStart benchmarkLateState) > 5 \<longrightarrow>
               SceneIndex (userSettings s') = SceneIndex (userSettings benchmarkLateState) + 1 \<and>
               count_list (newEvents benchmarkLateState s') EvWindowClose = 1"
    by blast
  from sc benchmarkLateState_scenario(1-4)
  have "SceneIndex (userSettings s') = SceneIndex (userSettings benchmarkLateState) + 1"
    and c: "count_list (newEvents benchmarkLateState s') EvWindowClose = 1"
    by blast+
  then have i: "SceneIndex (userSettings s') = 1"
    by (simp only: benchmarkLateState_scenario(5))
  from r i c have "\<exists>s'. CheckAndUpdateBenchmarkState singleSceneEnv 6 (11 / 2) benchmarkLateState = Done s' \<and>
         SceneIndex (userSettings s') = 1 \<and>
         count_list (newEvents benchmarkLateState s') EvWindowClose = 1"
    by blast
  with benchmarkLateState_ok benchmarkLateState_scenario(1-4) show ?thesis by blast
qed

section \<open>The frame-rate reports (lines 250-264)\<close>










end
